theory Spec2Isabelle
  imports Complex_Main
begin

section \<open>Python strings and POSIX paths\<close>

text \<open>
  Python \<open>str\<close> values are modelled as \<open>string\<close> (a list of characters with code
  points below 256).  Case conversion touches the ASCII letters only; the field values
  and format names that the repository handles (state abbreviations, \<open>GPKG\<close>) are
  ASCII.
\<close>

definition digit_char :: "nat \<Rightarrow> char" where
  "digit_char d = ''0123456789'' ! (d mod 10)"

text \<open>\<open>str(n)\<close> for a natural number: the decimal digits, most significant first.\<close>

fun digits :: "nat \<Rightarrow> string" where
  "digits n = (if n < 10 then [digit_char n] else digits (n div 10) @ [digit_char (n mod 10)])"

text \<open>The format specification \<open>0wd\<close>: pad with zeros on the left up to width \<open>w\<close>.\<close>

definition zero_pad :: "nat \<Rightarrow> string \<Rightarrow> string" where
  "zero_pad w s = replicate (w - length s) (CHR ''0'') @ s"

text \<open>\<open>str.isspace\<close> on one character (the code points below 256 that Python strips).\<close>

definition isspace :: "char \<Rightarrow> bool" where
  "isspace c = (c \<in> set [CHR 0x09, CHR 0x0A, CHR 0x0B, CHR 0x0C, CHR 0x0D, CHR 0x1C,
      CHR 0x1D, CHR 0x1E, CHR 0x1F, CHR '' '', CHR 0x85, CHR 0xA0])"

definition strip :: "string \<Rightarrow> string" where
  "strip s = rev (dropWhile isspace (rev (dropWhile isspace s)))"

text \<open>\<open>s.split(',')[0]\<close>: the part of \<open>s\<close> before the first comma (all of \<open>s\<close> without one).\<close>

definition first_comma_token :: "string \<Rightarrow> string" where
  "first_comma_token s = takeWhile (\<lambda>c. c \<noteq> CHR '','') s"

text \<open>\<open>s.replace(' ', '_')\<close>\<close>

definition replace_spaces :: "string \<Rightarrow> string" where
  "replace_spaces s = map (\<lambda>c. if c = CHR '' '' then CHR ''_'' else c) s"

definition upper_char :: "char \<Rightarrow> char" where
  "upper_char c =
     (case map_of (zip ''abcdefghijklmnopqrstuvwxyz'' ''ABCDEFGHIJKLMNOPQRSTUVWXYZ'') c of
        Some u \<Rightarrow> u | None \<Rightarrow> c)"

definition lower_char :: "char \<Rightarrow> char" where
  "lower_char c =
     (case map_of (zip ''ABCDEFGHIJKLMNOPQRSTUVWXYZ'' ''abcdefghijklmnopqrstuvwxyz'') c of
        Some l \<Rightarrow> l | None \<Rightarrow> c)"

definition upper :: "string \<Rightarrow> string" where
  "upper s = map upper_char s"

definition lower :: "string \<Rightarrow> string" where
  "lower s = map lower_char s"

definition endswith :: "string \<Rightarrow> string \<Rightarrow> bool" where
  "endswith s suffix = (length suffix \<le> length s \<and> drop (length s - length suffix) s = suffix)"

text \<open>\<open>os.path.join\<close> of two components (\<open>posixpath\<close>).\<close>

definition path_join :: "string \<Rightarrow> string \<Rightarrow> string" where
  "path_join a b =
     (if b \<noteq> [] \<and> hd b = CHR ''/'' then b
      else if a = [] \<or> last a = CHR ''/'' then a @ b
      else a @ ''/'' @ b)"

text \<open>\<open>os.path.basename\<close>: what follows the last slash.\<close>

definition basename :: "string \<Rightarrow> string" where
  "basename p = rev (takeWhile (\<lambda>c. c \<noteq> CHR ''/'') (rev p))"

text \<open>
  \<open>os.path.dirname\<close>: what precedes the last slash, with trailing slashes removed
  unless the head consists of slashes only.
\<close>

definition dirname :: "string \<Rightarrow> string" where
  "dirname p =
     (let hd_part = rev (dropWhile (\<lambda>c. c \<noteq> CHR ''/'') (rev p)) in
      if hd_part \<noteq> [] \<and> \<not> list_all (\<lambda>c. c = CHR ''/'') hd_part
      then rev (dropWhile (\<lambda>c. c = CHR ''/'') (rev hd_part))
      else hd_part)"

text \<open>
  \<open>os.path.splitext(p)[0]\<close> for a name without a slash: cut at the last dot, unless
  only dots precede it.
\<close>

definition splitext_root :: "string \<Rightarrow> string" where
  "splitext_root p =
     (let ext_rev = takeWhile (\<lambda>c. c \<noteq> CHR ''.'') (rev p);
          root = take (length p - length ext_rev - 1) p
      in if length ext_rev < length p \<and> \<not> list_all (\<lambda>c. c = CHR ''.'') root
         then root else p)"

section \<open>Bounding boxes and the tile grid (\<open>bbox.py\<close>, \<open>dem_utils.py\<close>)\<close>

text \<open>
  \<open>BoundingBox\<close> is a named tuple of four floats.  A finite float is a real number and
  \<open>math.floor\<close> is exact on it, so the coordinates are modelled as reals (NaN and the
  infinities, on which \<open>math.floor\<close> raises, are not bounding boxes of the model).
\<close>

record BoundingBox =
  xmin :: real
  ymin :: real
  xmax :: real
  ymax :: real

definition tile_name :: "int \<Rightarrow> int \<Rightarrow> string" where
  "tile_name lat lon =
     (let lat_prefix = (if lat \<ge> 0 then ''n'' else ''s'');
          lon_prefix = (if lon \<ge> 0 then ''e'' else ''w'')
      in lat_prefix @ zero_pad 2 (digits (nat \<bar>lat\<bar>)) @ lon_prefix @ zero_pad 3 (digits (nat \<bar>lon\<bar>)))"

definition USGS_BASE :: string where
  "USGS_BASE = ''https://prd-tnm.s3.amazonaws.com/StagedProducts/Elevation/1/TIFF/current''"

definition tile_url :: "string \<Rightarrow> string" where
  "tile_url tile_key = USGS_BASE @ ''/'' @ tile_key @ ''/USGS_1_'' @ tile_key @ ''.tif''"

text \<open>
  The two nested \<open>for\<close> loops over \<open>range(start, end + 1)\<close>, each appending to
  \<open>tiles\<close>: folds over the integer intervals, the list of tiles threaded through.
\<close>

definition tiles_for_bbox :: "BoundingBox \<Rightarrow> string list" where
  "tiles_for_bbox bbox =
     (let lon_start = \<lfloor>xmin bbox\<rfloor>;
          lon_end = \<lfloor>xmax bbox\<rfloor>;
          lat_start = \<lfloor>ymin bbox\<rfloor>;
          lat_end = \<lfloor>ymax bbox\<rfloor>
      in fold (\<lambda>lat tiles.
                 fold (\<lambda>lon tiles. tiles @ [tile_name lat lon]) [lon_start..lon_end] tiles)
              [lat_start..lat_end] [])"

section \<open>The world the programs act on\<close>

text \<open>
  Effects are explicit: every operation takes the world and returns the world it leaves,
  also when it raises.  The world holds the file system (regular files with their
  contents, and directories), and three traces: the URLs handed to \<open>requests.get\<close>, the
  argument vectors handed to \<open>subprocess.run\<close>, and the quadrangles \<open>_process_quad\<close> was
  entered with (the line \<open>Attempting to process: ...\<close> it prints first).  Of the printed
  output, the lines tagged \<open>[ERROR]\<close> and \<open>[WARN]\<close> are kept in \<open>diagnostics\<close>.

  File-system calls succeed unless the state of the model says otherwise (a missing
  file, a directory where a file is expected); permissions, full disks and the like are
  outside the model.  Paths are compared as strings.
\<close>

datatype error =
    RuntimeError string
  | CalledProcessError "string list"
  | FileNotFoundError string
  | IsADirectoryError string
  | AttributeError string

record world =
  files :: "string \<rightharpoonup> string"
  dirs :: "string set"
  requests :: "string list"
  calls :: "string list list"
  attempts :: "(string \<times> string) list"
  diagnostics :: "string list"

text \<open>
  What the server does with a request.  \<open>NoResponse\<close>: \<open>requests.get\<close> raises a
  \<open>RequestException\<close> (no connection, timeout) with the given text.  \<open>Response\<close>: a status
  code, the text of the \<open>HTTPError\<close> that \<open>raise_for_status\<close> would raise, the
  \<open>content-length\<close> header if present, and the body.  A body is a sequence of chunks that
  either ends (\<open>Complete\<close>) or breaks off with a transport error after the chunks
  received so far (\<open>Broken\<close>).
\<close>

datatype body = Complete "string list" | Broken "string list" string

datatype response =
    NoResponse string
  | Response nat string "nat option" body

text \<open>A map-index feature: the fields \<open>CELL_NAME\<close> and \<open>STATE_ALPHA\<close>, null as \<open>None\<close>.\<close>

record feature =
  CELL_NAME :: "string option"
  STATE_ALPHA :: "string option"

text \<open>
  What opening the geodatabase and its layer gives: \<open>driver.Open\<close> returns \<open>None\<close>,
  \<open>GetLayer\<close> returns \<open>None\<close>, the driver raises, or the features that intersect the
  filter rectangle, in the order the layer yields them.
\<close>

datatype layer_result =
    OpenFailed
  | LayerMissing
  | DriverError string
  | Features "feature list"

text \<open>
  The collaborators outside the repository, as parameters:
  \<^item> \<open>net n url\<close>: the server's answer to the request for \<open>url\<close> made after \<open>n\<close> earlier
    requests;
  \<^item> \<open>tool argv fs\<close>: the exit status of the external program and the file system it
    leaves (\<open>gdalbuildvrt\<close>, \<open>gdalwarp\<close>);
  \<^item> \<open>read_zip data\<close>: how \<open>zipfile\<close> reads a file's content, \<open>None\<close> for \<open>BadZipFile\<close>,
    else the members (name, data) in \<open>infolist\<close> order;
  \<^item> \<open>open_layer\<close>: the OGR driver;
  \<^item> \<open>str_float\<close>: Python's \<open>str\<close> of a float.
\<close>

record env =
  net :: "nat \<Rightarrow> string \<Rightarrow> response"
  tool :: "string list \<Rightarrow> (string \<rightharpoonup> string) \<times> string set
             \<Rightarrow> int \<times> (string \<rightharpoonup> string) \<times> string set"
  read_zip :: "string \<Rightarrow> (string \<times> string) list option"
  open_layer :: "string \<Rightarrow> string \<Rightarrow> BoundingBox \<Rightarrow> layer_result"
  str_float :: "real \<Rightarrow> string"

text \<open>\<open>os.path.exists\<close>\<close>

definition path_exists :: "world \<Rightarrow> string \<Rightarrow> bool" where
  "path_exists w p = (p \<in> dirs w \<or> files w p \<noteq> None)"

text \<open>
  \<open>os.makedirs(d, exist_ok=True)\<close>: afterwards \<open>d\<close> is a directory.  (Missing parents
  are created as well; the model records the directory that was asked for.  The empty
  path, on which \<open>os.makedirs\<close> raises, is outside the model.)
\<close>

definition makedirs :: "string \<Rightarrow> world \<Rightarrow> world" where
  "makedirs d w = w\<lparr>dirs := insert d (dirs w)\<rparr>"

text \<open>Writing a file (\<open>open(p, 'wb')\<close> and the writes up to its close).\<close>

definition write_file :: "string \<Rightarrow> string \<Rightarrow> world \<Rightarrow> world" where
  "write_file p data w = w\<lparr>files := (files w)(p \<mapsto> data)\<rparr>"

definition unlink :: "string \<Rightarrow> world \<Rightarrow> world" where
  "unlink p w = w\<lparr>files := (files w)(p := None)\<rparr>"

text \<open>\<open>os.remove\<close>: raises unless the path is a regular file.\<close>

definition os_remove :: "string \<Rightarrow> world \<Rightarrow> error + world" where
  "os_remove p w =
     (case files w p of
        Some data \<Rightarrow> Inr (unlink p w)
      | None \<Rightarrow> Inl (if p \<in> dirs w then IsADirectoryError p else FileNotFoundError p))"

text \<open>\<open>shutil.move\<close> of a regular file onto a path that is not a directory: a rename.\<close>

definition move_file :: "string \<Rightarrow> string \<Rightarrow> world \<Rightarrow> world" where
  "move_file src dst w =
     (case files w src of
        Some data \<Rightarrow> write_file dst data (unlink src w)
      | None \<Rightarrow> w)"

definition report :: "string \<Rightarrow> world \<Rightarrow> world" where
  "report line w = w\<lparr>diagnostics := diagnostics w @ [line]\<rparr>"

text \<open>\<open>str\<close> of a message that may be \<open>None\<close>, as an f-string renders it.\<close>

definition str_opt :: "string option \<Rightarrow> string" where
  "str_opt m = (case m of None \<Rightarrow> ''None'' | Some s \<Rightarrow> s)"

definition str_error :: "error \<Rightarrow> string" where
  "str_error e =
     (case e of
        RuntimeError m \<Rightarrow> m
      | CalledProcessError argv \<Rightarrow> ''Command returned non-zero exit status''
      | FileNotFoundError p \<Rightarrow> ''No such file or directory: '' @ p
      | IsADirectoryError p \<Rightarrow> ''Is a directory: '' @ p
      | AttributeError m \<Rightarrow> m)"

section \<open>\<open>download_utils.py\<close>\<close>

text \<open>
  \<open>download_file\<close> returns the pair (success, message).  The \<open>try\<close> block catches
  \<open>HTTPError\<close> and every other \<open>RequestException\<close>; the file is opened for writing only
  after the status and the size have been checked, and a transport error while the
  chunks are written leaves what was written so far.
\<close>

definition download_file :: "env \<Rightarrow> string \<Rightarrow> string \<Rightarrow> world \<Rightarrow> (bool \<times> string option) \<times> world" where
  "download_file E url local_filepath w =
     (let w1 = makedirs (dirname local_filepath) w;
          w2 = w1\<lparr>requests := requests w1 @ [url]\<rparr>
      in case net E (length (requests w1)) url of
           NoResponse err \<Rightarrow>
             ((False, Some (''An unexpected error occurred for '' @ url @ '': '' @ err)), w2)
         | Response status errh content_length content \<Rightarrow>
             if 400 \<le> status \<and> status < 600
             then ((False, Some (''HTTP Error for '' @ url @ '': '' @ errh)), w2)
             else if (case content_length of None \<Rightarrow> 0 | Some n \<Rightarrow> n) = 0
             then ((False, Some (''File size is 0 bytes at '' @ url)), w2)
             else (case content of
                     Complete chunks \<Rightarrow>
                       ((True, None), write_file local_filepath (concat chunks) w2)
                   | Broken chunks err \<Rightarrow>
                       ((False, Some (''An unexpected error occurred for '' @ url @ '': '' @ err)),
                        write_file local_filepath (concat chunks) w2)))"

text \<open>
  \<open>extract_zip_and_rename\<close> returns the pair (success, path or message).  Opening a
  missing file and a failing \<open>os.remove\<close> end in the \<open>except Exception\<close> handler.
  The member is extracted under its base name, directly in \<open>extract_dir\<close>.
\<close>

definition extract_zip_and_rename :: "env \<Rightarrow> string \<Rightarrow> string \<Rightarrow> string \<Rightarrow> world \<Rightarrow> (bool \<times> string) \<times> world" where
  "extract_zip_and_rename E zip_path extract_dir file_extension w =
     (let w1 = makedirs extract_dir w;
          zip_basename = basename zip_path;
          target_basename = splitext_root zip_basename @ file_extension;
          target_path = path_join extract_dir target_basename
      in case files w1 zip_path of
           None \<Rightarrow>
             ((False, ''Failed to extract/cleanup '' @ zip_path @ '': ''
                 @ str_error (if zip_path \<in> dirs w1 then IsADirectoryError zip_path
                              else FileNotFoundError zip_path)), w1)
         | Some data \<Rightarrow>
            (case read_zip E data of
               None \<Rightarrow> ((False, ''Bad zip file (deleted): '' @ zip_path), unlink zip_path w1)
             | Some members \<Rightarrow>
                (case find (\<lambda>f_info. endswith (fst f_info) file_extension) members of
                   None \<Rightarrow>
                     ((False, ''No '' @ [CHR 0x27] @ file_extension @ [CHR 0x27]
                         @ '' file found in '' @ zip_path), w1)
                 | Some target_file_info \<Rightarrow>
                     (let original_filename = fst target_file_info;
                          extracted_file_path = path_join extract_dir (basename original_filename);
                          w2 = write_file extracted_file_path (snd target_file_info) w1;
                          w3 = (if extracted_file_path \<noteq> target_path
                                then move_file extracted_file_path target_path w2 else w2)
                      in case os_remove zip_path w3 of
                           Inl e \<Rightarrow>
                             ((False, ''Failed to extract/cleanup '' @ zip_path @ '': '' @ str_error e), w3)
                         | Inr w4 \<Rightarrow> ((True, target_path), w4)))))"

section \<open>\<open>dem_utils.py\<close>: cache and compositor\<close>

text \<open>
  \<open>download_tile\<close> returns the cached path or raises \<open>RuntimeError\<close> when the download
  reports failure.
\<close>

definition download_tile :: "env \<Rightarrow> string \<Rightarrow> string \<Rightarrow> world \<Rightarrow> (error + string) \<times> world" where
  "download_tile E tile_key cache_dir w =
     (let w1 = makedirs cache_dir w;
          out_path = path_join cache_dir (tile_key @ ''.tif'')
      in if path_exists w1 out_path then (Inr out_path, w1)
         else (let url = tile_url tile_key in
               case download_file E url out_path w1 of
                 ((success, msg), w2) \<Rightarrow>
                   if \<not> success
                   then (Inl (RuntimeError (''Failed to download '' @ url @ '': '' @ str_opt msg)), w2)
                   else (Inr out_path, w2)))"

text \<open>
  \<open>subprocess.run(argv, check=True)\<close>: the call is recorded, the program acts on the
  file system, and a non-zero exit status raises \<open>CalledProcessError\<close>.  (The programs
  are taken to be installed.)
\<close>

definition run :: "env \<Rightarrow> string list \<Rightarrow> world \<Rightarrow> (error + unit) \<times> world" where
  "run E argv w =
     (case tool E argv (files w, dirs w) of
        (returncode, fs, ds) \<Rightarrow>
          (let w' = w\<lparr>files := fs, dirs := ds, calls := calls w @ [argv]\<rparr>
           in if returncode \<noteq> 0 then (Inl (CalledProcessError argv), w') else (Inr (), w')))"

definition merge_and_clip :: "env \<Rightarrow> string list \<Rightarrow> BoundingBox \<Rightarrow> string \<Rightarrow> world \<Rightarrow> (error + string) \<times> world" where
  "merge_and_clip E tile_paths bbox out_dir w =
     (let w1 = makedirs out_dir w;
          vrt_path = path_join out_dir ''_tmp_mosaic.vrt'';
          out_path = path_join out_dir
            (''DEM_'' @ str_float E (xmin bbox) @ ''_'' @ str_float E (ymin bbox) @ ''_''
               @ str_float E (xmax bbox) @ ''_'' @ str_float E (ymax bbox) @ ''.tif'')
      in case run E (''gdalbuildvrt'' # vrt_path # tile_paths) w1 of
           (Inl e, w2) \<Rightarrow> (Inl e, w2)
         | (Inr u, w2) \<Rightarrow>
            (case run E [''gdalwarp'', ''-te'', str_float E (xmin bbox), str_float E (ymin bbox),
                           str_float E (xmax bbox), str_float E (ymax bbox),
                           ''-te_srs'', ''EPSG:4326'', ''-dstalpha'', vrt_path, out_path] w2 of
               (Inl e, w3) \<Rightarrow> (Inl e, w3)
             | (Inr u', w3) \<Rightarrow>
                 if path_exists w3 vrt_path
                 then (case os_remove vrt_path w3 of
                         Inl e \<Rightarrow> (Inl e, w3)
                       | Inr w4 \<Rightarrow> (Inr out_path, w4))
                 else (Inr out_path, w3)))"

text \<open>The loop of \<open>fetch_and_clip_dem\<close> that fills \<open>tile_paths\<close>; the first raise ends it.\<close>

fun download_tiles :: "env \<Rightarrow> string \<Rightarrow> string list \<Rightarrow> string list \<Rightarrow> world \<Rightarrow> (error + string list) \<times> world" where
  "download_tiles E cache_dir [] tile_paths w = (Inr tile_paths, w)"
| "download_tiles E cache_dir (tile_key # tiles) tile_paths w =
     (case download_tile E tile_key cache_dir w of
        (Inl e, w') \<Rightarrow> (Inl e, w')
      | (Inr p, w') \<Rightarrow> download_tiles E cache_dir tiles (tile_paths @ [p]) w')"

text \<open>
  \<open>fetch_and_clip_dem\<close> returns the output path or \<open>None\<close>; only \<open>RuntimeError\<close> is caught
  around the download loop.
\<close>

definition fetch_and_clip_dem :: "env \<Rightarrow> BoundingBox \<Rightarrow> string \<Rightarrow> string \<Rightarrow> world \<Rightarrow> (error + string option) \<times> world" where
  "fetch_and_clip_dem E bbox cache_dir out_dir w =
     (let tiles = tiles_for_bbox bbox in
      if tiles = [] then (Inr None, report ''[WARN] No tiles found for the given bounding box.'' w)
      else (case download_tiles E cache_dir tiles [] w of
              (Inl (RuntimeError m), w') \<Rightarrow>
                (Inr None, report (''[ERROR] Failed during tile download: '' @ m) w')
            | (Inl e, w') \<Rightarrow> (Inl e, w')
            | (Inr tile_paths, w') \<Rightarrow>
                (case merge_and_clip E tile_paths bbox out_dir w' of
                   (Inl e, w'') \<Rightarrow> (Inl e, w'')
                 | (Inr p, w'') \<Rightarrow> (Inr (Some p), w''))))"

section \<open>\<open>gpkg_utils.py\<close>: the quadrangle downloader\<close>

text \<open>
  The fields of \<open>USGSTopoDownloader\<close>.  \<open>raw_dir\<close> and \<open>extracted_dir\<close> are the module
  constants \<open>RAW_DIR\<close> and \<open>EXTRACTED_DIR\<close>, computed from the location of the module.
  The methods \<open>_get_quad_info\<close> and \<open>_process_quad\<close> appear without their leading
  underscore.
\<close>

record downloader =
  gdb_path :: string
  bbox :: BoundingBox
  raw_dir :: string
  extracted_dir :: string
  download_format :: string
  layer_name :: string

definition BASE_URL :: string where
  "BASE_URL = ''https://prd-tnm.s3.amazonaws.com/StagedProducts/TopoMapVector/''"

text \<open>
  \<open>_get_quad_info\<close>: \<open>None\<close> with a printed error when the state field is null or
  empty; \<open>cell_name.strip()\<close> raises \<open>AttributeError\<close> on a null cell name.
\<close>

definition get_quad_info :: "string option \<Rightarrow> string option \<Rightarrow> world \<Rightarrow> (error + (string \<times> string) option) \<times> world" where
  "get_quad_info cell_name state_alpha_field w =
     (if state_alpha_field = None \<or> state_alpha_field = Some []
      then (Inr None,
            report (''  [ERROR] STATE_ALPHA field is empty for: '' @ str_opt cell_name @ ''. Skipping.'') w)
      else (let state_abbr = strip (first_comma_token (the state_alpha_field)) in
            case cell_name of
              None \<Rightarrow> (Inl (AttributeError ''NoneType object has no attribute strip''), w)
            | Some name \<Rightarrow>
                (let quad_name_for_url = replace_spaces (strip name)
                 in (Inr (Some (quad_name_for_url, state_abbr)), w))))"

text \<open>The dedup key of \<open>download_by_bbox\<close>: the f-string \<open>{quad_name}_{state_abbr}\<close>.\<close>

definition quad_key :: "string \<Rightarrow> string \<Rightarrow> string" where
  "quad_key quad_name state_abbr = quad_name @ ''_'' @ state_abbr"

definition process_quad :: "env \<Rightarrow> downloader \<Rightarrow> string \<Rightarrow> string \<Rightarrow> world \<Rightarrow> (error + bool) \<times> world" where
  "process_quad E self quad_name state_abbr w =
     (let zip_filename = ''VECTOR_'' @ quad_name @ ''_'' @ state_abbr @ ''_7_5_Min_''
                           @ download_format self @ ''.zip'';
          gpkg_filename = ''VECTOR_'' @ quad_name @ ''_'' @ state_abbr @ ''_7_5_Min_''
                           @ download_format self @ ''.gpkg'';
          zip_filepath = path_join (raw_dir self) zip_filename;
          gpkg_filepath = path_join (extracted_dir self) gpkg_filename;
          full_url = BASE_URL @ upper state_abbr @ ''/'' @ download_format self @ ''/'' @ zip_filename;
          w0 = w\<lparr>attempts := attempts w @ [(quad_name, state_abbr)]\<rparr>
      in if path_exists w0 gpkg_filepath then (Inr True, w0)
         else (case download_file E full_url zip_filepath w0 of
                 ((download_success, dl_msg), w1) \<Rightarrow>
                   if \<not> download_success
                   then (let w2 = report (''  [ERROR] Download failed: '' @ str_opt dl_msg) w1 in
                         if path_exists w2 zip_filepath
                         then (case os_remove zip_filepath w2 of
                                 Inl e \<Rightarrow> (Inl e, w2)
                               | Inr w3 \<Rightarrow> (Inr False, w3))
                         else (Inr False, w2))
                   else (case extract_zip_and_rename E zip_filepath (extracted_dir self)
                                 (''.'' @ lower (download_format self)) w1 of
                           ((extract_success, ext_msg), w2) \<Rightarrow>
                             if \<not> extract_success
                             then (Inr False, report (''  [ERROR] Extraction failed: '' @ ext_msg) w2)
                             else (Inr True, w2))))"

text \<open>The local variables of the loop in \<open>download_by_bbox\<close>.\<close>

record loop_state =
  processed_quads :: "string set"
  features_found :: nat
  downloads_successful :: nat

text \<open>The \<open>for feature in layer\<close> loop; an exception leaves it.\<close>

fun quad_loop :: "env \<Rightarrow> downloader \<Rightarrow> feature list \<Rightarrow> loop_state \<Rightarrow> world \<Rightarrow> (error + loop_state) \<times> world" where
  "quad_loop E self [] st w = (Inr st, w)"
| "quad_loop E self (feature # rest) st w =
     (let st1 = st\<lparr>features_found := features_found st + 1\<rparr> in
      case get_quad_info (CELL_NAME feature) (STATE_ALPHA feature) w of
        (Inl e, w1) \<Rightarrow> (Inl e, w1)
      | (Inr None, w1) \<Rightarrow> quad_loop E self rest st1 w1
      | (Inr (Some (quad_name, state_abbr)), w1) \<Rightarrow>
          if quad_key quad_name state_abbr \<in> processed_quads st1
          then quad_loop E self rest st1 w1
          else (let st2 = st1\<lparr>processed_quads :=
                                insert (quad_key quad_name state_abbr) (processed_quads st1)\<rparr> in
                case process_quad E self quad_name state_abbr w1 of
                  (Inl e, w2) \<Rightarrow> (Inl e, w2)
                | (Inr ok, w2) \<Rightarrow>
                    quad_loop E self rest
                      (if ok then st2\<lparr>downloads_successful := downloads_successful st2 + 1\<rparr>
                       else st2) w2))"

text \<open>
  The summary dictionary: \<open>SUCCESS\<close> carries \<open>features_found\<close>,
  \<open>unique_quads_identified\<close> and \<open>downloads_successful\<close>, in this order;
  \<open>CRITICAL_ERROR\<close> carries the text of the exception that the \<open>except\<close> clause
  caught (the line it prints is not kept).
\<close>

datatype summary =
    FAILED string
  | SUCCESS nat nat nat
  | CRITICAL_ERROR string

definition download_by_bbox :: "env \<Rightarrow> downloader \<Rightarrow> world \<Rightarrow> summary \<times> world" where
  "download_by_bbox E self w =
     (if \<not> path_exists w (gdb_path self)
      then (FAILED (''GDB file not found at: '' @ gdb_path self), w)
      else (case open_layer E (gdb_path self) (layer_name self) (bbox self) of
              OpenFailed \<Rightarrow> (FAILED (''Could not open '' @ gdb_path self @ ''.''), w)
            | LayerMissing \<Rightarrow> (FAILED (''Could not find layer '' @ layer_name self @ ''.''), w)
            | DriverError m \<Rightarrow> (CRITICAL_ERROR m, w)
            | Features layer \<Rightarrow>
               (case quad_loop E self layer
                       \<lparr>processed_quads = {}, features_found = 0, downloads_successful = 0\<rparr> w of
                  (Inl e, w') \<Rightarrow> (CRITICAL_ERROR (str_error e), w')
                | (Inr st, w') \<Rightarrow>
                    (SUCCESS (features_found st) (card (processed_quads st))
                       (downloads_successful st), w'))))"

section \<open>Auxiliary notions for the proofs\<close>

text \<open>Reading a decimal numeral back, to show that tile keys determine their cell.\<close>

definition is_digit :: "char \<Rightarrow> bool" where
  "is_digit c = (c \<in> set ''0123456789'')"

definition digit_val :: "char \<Rightarrow> nat" where
  "digit_val c = length (takeWhile (\<lambda>d. d \<noteq> c) ''0123456789'')"

definition decimal_val :: "string \<Rightarrow> nat" where
  "decimal_val s = foldl (\<lambda>a c. 10 * a + digit_val c) 0 s"

text \<open>The dedup keys of a list of (quad name, state) pairs.\<close>

definition keys_of :: "(string \<times> string) list \<Rightarrow> string list" where
  "keys_of qs = map (\<lambda>(q, a). quad_key q a) qs"

text \<open>The line \<open>_get_quad_info\<close> prints for a record without a state.\<close>

definition empty_state_line :: "string option \<Rightarrow> string" where
  "empty_state_line cell_name =
     ''  [ERROR] STATE_ALPHA field is empty for: '' @ str_opt cell_name @ ''. Skipping.''"

section \<open>Scenarios\<close>

text \<open>
  Concrete worlds and collaborators on which the model is run.  The stubs stand for the
  external programs: \<open>gdalbuildvrt\<close> writes the mosaic when it is given inputs that
  exist and fails otherwise, \<open>gdalwarp\<close> writes its output or fails as the scenario asks,
  and the archive reader knows two well-formed archives.
\<close>

definition world0 :: world where
  "world0 = \<lparr>files = Map.empty, dirs = {}, requests = [], calls = [], attempts = [],
      diagnostics = []\<rparr>"

definition show_float :: "real \<Rightarrow> string" where
  "show_float r =
     (if r = -103 then ''-103.0'' else if r = 42.8 then ''42.8''
      else if r = -102.5 then ''-102.5'' else if r = 43.2 then ''43.2'' else ''0.0'')"

definition gdal_stub :: "bool \<Rightarrow> string list \<Rightarrow> (string \<rightharpoonup> string) \<times> string set
             \<Rightarrow> int \<times> (string \<rightharpoonup> string) \<times> string set" where
  "gdal_stub warp_ok argv fs =
     (case argv of
        [] \<Rightarrow> (127, fs)
      | prog # args \<Rightarrow>
          if prog = ''gdalbuildvrt''
          then (case args of
                  [] \<Rightarrow> (1, fs)
                | vrt # inputs \<Rightarrow>
                    if inputs \<noteq> [] \<and> list_all (\<lambda>p. fst fs p \<noteq> None) inputs
                    then (0, (fst fs)(vrt \<mapsto> ''<VRTDataset/>''), snd fs)
                    else (1, fs))
          else if prog = ''gdalwarp'' \<and> warp_ok \<and> args \<noteq> []
          then (0, (fst fs)(last args \<mapsto> ''GTiff''), snd fs)
          else (1, fs))"

definition zip_stub :: "string \<Rightarrow> (string \<times> string) list option" where
  "zip_stub data =
     (if data = ''PK-gpkg''
      then Some [(''docs/readme.txt'', ''hello''), (''sub/dir/file.gpkg'', ''gpkg-data'')]
      else if data = ''PK-txt'' then Some [(''readme.txt'', ''hello'')]
      else None)"

definition test_env :: "(nat \<Rightarrow> string \<Rightarrow> response) \<Rightarrow> bool \<Rightarrow> feature list \<Rightarrow> env" where
  "test_env srv warp_ok layer =
     \<lparr>net = srv, tool = gdal_stub warp_ok, read_zip = zip_stub,
      open_layer = (\<lambda>p l b. Features layer), str_float = show_float\<rparr>"

text \<open>Three servers: unreachable, breaking off in mid-transfer, and serving an archive.\<close>

definition offline :: "nat \<Rightarrow> string \<Rightarrow> response" where
  "offline n url = NoResponse ''Connection refused''"

definition broken_server :: "nat \<Rightarrow> string \<Rightarrow> response" where
  "broken_server n url =
     Response 200 [] (Some 1048576) (Broken [''II*'', ''partial''] ''Connection broken: IncompleteRead'')"

definition file_server :: "string \<Rightarrow> nat \<Rightarrow> string \<Rightarrow> response" where
  "file_server data n url = Response 200 [] (Some (length data)) (Complete [data])"

definition ne_sd_bbox :: BoundingBox where
  "ne_sd_bbox = \<lparr>xmin = -103.0, ymin = 42.8, xmax = -102.5, ymax = 43.2\<rparr>"

definition tile_world :: world where
  "tile_world = world0\<lparr>files := [''cache/n42w103.tif'' \<mapsto> ''tif-a'',
                                  ''cache/n43w103.tif'' \<mapsto> ''tif-b'']\<rparr>"

definition fetched_world :: world where
  "fetched_world = world0\<lparr>files := [''cache/n42w103.tif'' \<mapsto> ''II*tile''], dirs := {''cache''},
      requests := [tile_url ''n42w103'']\<rparr>"

definition zip_world :: "string \<Rightarrow> world" where
  "zip_world data = world0\<lparr>files := [''raw/VECTOR_Qux_SD_7_5_Min_GPKG.zip'' \<mapsto> data]\<rparr>"

definition quad_downloader :: downloader where
  "quad_downloader = \<lparr>gdb_path = ''data/MapIndices_National_GDB.gdb'', bbox = ne_sd_bbox,
      raw_dir = ''data/raw/gpkg'', extracted_dir = ''data/extracted/gpkg'',
      download_format = ''GPKG'', layer_name = ''CellGrid_7_5Minute''\<rparr>"

definition gdb_world :: world where
  "gdb_world = world0\<lparr>dirs := {''data/MapIndices_National_GDB.gdb''}\<rparr>"

text \<open>A quadrangle run: a cached quadrangle, a second record of it, a record without a
  state, and a quadrangle that is downloaded.\<close>

definition quad_layer :: "feature list" where
  "quad_layer =
     [\<lparr>CELL_NAME = Some ''Foo Bar'', STATE_ALPHA = Some ''NE,SD''\<rparr>,
      \<lparr>CELL_NAME = Some ''Foo Bar'', STATE_ALPHA = Some ''NE''\<rparr>,
      \<lparr>CELL_NAME = Some ''Baz'', STATE_ALPHA = Some []\<rparr>,
      \<lparr>CELL_NAME = Some ''Qux'', STATE_ALPHA = Some ''SD''\<rparr>]"

definition quad_env :: env where
  "quad_env = test_env (file_server ''PK-gpkg'') True quad_layer"

definition quad_world :: world where
  "quad_world = world0\<lparr>files := [''data/extracted/gpkg/VECTOR_Foo_Bar_NE_7_5_Min_GPKG.gpkg'' \<mapsto> ''cached''],
      dirs := {''data/MapIndices_National_GDB.gdb''}\<rparr>"

definition loop_init :: loop_state where
  "loop_init = \<lparr>processed_quads = {}, features_found = 0, downloads_successful = 0\<rparr>"

text \<open>Two records whose state fields agree up to letter case, and a box whose western
  edge lies east of its eastern edge.\<close>

definition case_layer :: "feature list" where
  "case_layer =
     [\<lparr>CELL_NAME = Some ''Foo Bar'', STATE_ALPHA = Some ''NE,SD''\<rparr>,
      \<lparr>CELL_NAME = Some ''Foo_Bar'', STATE_ALPHA = Some ''ne''\<rparr>]"

definition inverted_bbox :: BoundingBox where
  "inverted_bbox = \<lparr>xmin = -101.5, ymin = 42.8, xmax = -103.0, ymax = 43.2\<rparr>"

text \<open>Definitions to unfold when a scenario is evaluated.\<close>

lemmas fs_defs = makedirs_def path_exists_def os_remove_def unlink_def write_file_def
  move_file_def report_def Let_def
lemmas path_defs = path_join_def basename_def dirname_def splitext_root_def endswith_def
lemmas stub_defs = test_env_def gdal_stub_def show_float_def zip_stub_def offline_def
  broken_server_def file_server_def world0_def
lemmas quad_defs = download_by_bbox_def get_quad_info_def process_quad_def quad_key_def
  download_file_def extract_zip_and_rename_def strip_def first_comma_token_def
  replace_spaces_def isspace_def upper_def upper_char_def lower_def lower_char_def
  str_opt_def str_error_def BASE_URL_def

lemmas scen_defs = quad_layer_def quad_env_def quad_world_def loop_init_def quad_downloader_def
  ne_sd_bbox_def

section \<open>The tile grid\<close>

declare digits.simps [simp del]

lemma lt10_cases: "(d::nat) < 10 \<Longrightarrow> d = 0 \<or> d = 1 \<or> d = 2 \<or> d = 3 \<or> d = 4 \<or> d = 5 \<or> d = 6 \<or> d = 7 \<or> d = 8 \<or> d = 9"
  by arith

lemma digit_val_digit_char: "d < 10 \<Longrightarrow> digit_val (digit_char d) = d"
  using lt10_cases [of d] by (auto simp: digit_val_def digit_char_def)

lemma is_digit_digit_char: "is_digit (digit_char d)"
proof -
  have "d mod 10 < 10" by simp
  from lt10_cases [OF this] show ?thesis
    by (auto simp: is_digit_def digit_char_def)
qed

lemma decimal_val_snoc: "decimal_val (s @ [c]) = 10 * decimal_val s + digit_val c"
  by (simp add: decimal_val_def)

lemma decimal_val_digits: "decimal_val (digits n) = n"
proof (induction n rule: digits.induct)
  case (1 n)
  show ?case
  proof (cases "n < 10")
    case True
    then show ?thesis
      by (simp add: digits.simps [of n] decimal_val_def digit_val_digit_char)
  next
    case False
    then have "decimal_val (digits (n div 10)) = n div 10" using 1 by simp
    with False show ?thesis
      by (simp add: digits.simps [of n] decimal_val_snoc digit_val_digit_char)
  qed
qed

lemma digits_all_digit: "list_all is_digit (digits n)"
proof (induction n rule: digits.induct)
  case (1 n)
  then show ?case
    by (cases "n < 10") (simp_all add: digits.simps [of n] is_digit_digit_char)
qed

lemma decimal_val_zeros: "decimal_val (replicate k (CHR ''0'') @ s) = decimal_val s"
proof (induction k)
  case 0
  then show ?case by simp
next
  case (Suc k)
  have "foldl (\<lambda>a c. 10 * a + digit_val c) 0 (CHR ''0'' # replicate k (CHR ''0'') @ s)
      = foldl (\<lambda>a c. 10 * a + digit_val c) 0 (replicate k (CHR ''0'') @ s)"
    by (simp add: digit_val_def)
  with Suc show ?case by (simp add: decimal_val_def)
qed

lemma decimal_val_zero_pad: "decimal_val (zero_pad w (digits n)) = n"
  by (simp add: zero_pad_def decimal_val_zeros decimal_val_digits)

lemma zero_pad_all_digit: "list_all is_digit (zero_pad w (digits n))"
proof -
  have "is_digit (CHR ''0'')" by (simp add: is_digit_def)
  then have "list_all is_digit (replicate (w - length (digits n)) (CHR ''0''))"
    by (simp add: list_all_iff)
  then show ?thesis by (simp add: zero_pad_def digits_all_digit)
qed

lemma digit_run_unique:
  assumes "list_all is_digit d1" "list_all is_digit d2" "\<not> is_digit p1" "\<not> is_digit p2"
    and "d1 @ p1 # r1 = d2 @ p2 # r2"
  shows "d1 = d2 \<and> p1 = p2 \<and> r1 = r2"
proof -
  have "takeWhile is_digit (d1 @ p1 # r1) = d1"
    using assms(1,3) by (simp add: takeWhile_tail list_all_iff)
  moreover have "takeWhile is_digit (d2 @ p2 # r2) = d2"
    using assms(2,4) by (simp add: takeWhile_tail list_all_iff)
  ultimately have "d1 = d2" using assms(5) by simp
  with assms(5) show ?thesis by simp
qed

lemma tile_name_inj:
  assumes "tile_name lat lon = tile_name lat' lon'"
  shows "lat = lat' \<and> lon = lon'"
proof -
  let ?d1 = "zero_pad 2 (digits (nat \<bar>lat\<bar>))" and ?d1' = "zero_pad 2 (digits (nat \<bar>lat'\<bar>))"
  let ?d2 = "zero_pad 3 (digits (nat \<bar>lon\<bar>))" and ?d2' = "zero_pad 3 (digits (nat \<bar>lon'\<bar>))"
  let ?p = "\<lambda>l::int. if l \<ge> 0 then CHR ''n'' else CHR ''s''"
  let ?q = "\<lambda>l::int. if l \<ge> 0 then CHR ''e'' else CHR ''w''"
  have eq: "?p lat # ?d1 @ ?q lon # ?d2 = ?p lat' # ?d1' @ ?q lon' # ?d2'"
    using assms by (simp add: tile_name_def Let_def split: if_splits)
  then have p: "?p lat = ?p lat'" and rest: "?d1 @ ?q lon # ?d2 = ?d1' @ ?q lon' # ?d2'"
    by simp_all
  have nd: "\<not> is_digit (?q lon)" "\<not> is_digit (?q lon')"
    by (simp_all add: is_digit_def)
  from digit_run_unique [OF zero_pad_all_digit zero_pad_all_digit nd rest]
  have d1: "?d1 = ?d1'" and q: "?q lon = ?q lon'" and d2: "?d2 = ?d2'" by simp_all
  from d1 have "decimal_val ?d1 = decimal_val ?d1'" by simp
  then have a1: "nat \<bar>lat\<bar> = nat \<bar>lat'\<bar>" by (simp add: decimal_val_zero_pad)
  from d2 have "decimal_val ?d2 = decimal_val ?d2'" by simp
  then have a2: "nat \<bar>lon\<bar> = nat \<bar>lon'\<bar>" by (simp add: decimal_val_zero_pad)
  from p have s1: "(lat \<ge> 0) = (lat' \<ge> 0)" by (simp split: if_splits)
  from q have s2: "(lon \<ge> 0) = (lon' \<ge> 0)" by (simp split: if_splits)
  from a1 s1 have "lat = lat'" by arith
  moreover from a2 s2 have "lon = lon'" by arith
  ultimately show ?thesis by simp
qed

lemma fold_snoc_map: "fold (\<lambda>x acc. acc @ [f x]) xs acc = acc @ map f xs"
  by (induction xs arbitrary: acc) simp_all

lemma fold_rows: "fold (\<lambda>x acc. acc @ g x) xs acc = acc @ concat (map g xs)"
  by (induction xs arbitrary: acc) simp_all

lemma tiles_for_bbox_grid:
  "tiles_for_bbox b =
     concat (map (\<lambda>lat. map (\<lambda>lon. tile_name lat lon) [\<lfloor>xmin b\<rfloor>..\<lfloor>xmax b\<rfloor>])
                 [\<lfloor>ymin b\<rfloor>..\<lfloor>ymax b\<rfloor>])"
  by (simp add: tiles_for_bbox_def Let_def fold_snoc_map fold_rows)

lemma grid_as_product:
  "concat (map (\<lambda>lat. map (\<lambda>lon. f lat lon) ys) xs) = map (\<lambda>(lat, lon). f lat lon) (List.product xs ys)"
  by (induction xs) simp_all

lemma distinct_grid:
  "distinct xs \<Longrightarrow> distinct ys \<Longrightarrow>
   distinct (concat (map (\<lambda>lat. map (\<lambda>lon. tile_name lat lon) ys) xs))"
  unfolding grid_as_product
  by (rule iffD2 [OF distinct_map]) (auto simp: distinct_product inj_on_def dest: tile_name_inj)

lemma length_grid:
  "length (concat (map (\<lambda>lat. map (\<lambda>lon. f lat lon) ys) xs)) = length xs * length ys"
  by (induction xs) simp_all

text \<open>
  Claim C6.  For a bounding box with \<open>xmin \<le> xmax\<close> and \<open>ymin \<le> ymax\<close>,
  \<open>tiles_for_bbox\<close> returns the keys of the cells of the integer grid
  \<open>[floor ymin, floor ymax] \<times> [floor xmin, floor xmax]\<close> in row-major order (latitude
  outer, longitude inner): \<open>(floor xmax - floor xmin + 1) * (floor ymax - floor ymin + 1)\<close>
  keys, no two of them equal, each the key of a cell in range.
\<close>

theorem tiles_for_bbox_spec:
  assumes "xmin b \<le> xmax b" and "ymin b \<le> ymax b"
  shows "tiles_for_bbox b =
           concat (map (\<lambda>lat. map (\<lambda>lon. tile_name lat lon) [\<lfloor>xmin b\<rfloor>..\<lfloor>xmax b\<rfloor>])
                       [\<lfloor>ymin b\<rfloor>..\<lfloor>ymax b\<rfloor>])
       \<and> int (length (tiles_for_bbox b)) =
           (\<lfloor>xmax b\<rfloor> - \<lfloor>xmin b\<rfloor> + 1) * (\<lfloor>ymax b\<rfloor> - \<lfloor>ymin b\<rfloor> + 1)
       \<and> distinct (tiles_for_bbox b)
       \<and> (\<forall>k \<in> set (tiles_for_bbox b). \<exists>lat lon.
             \<lfloor>ymin b\<rfloor> \<le> lat \<and> lat \<le> \<lfloor>ymax b\<rfloor> \<and>
             \<lfloor>xmin b\<rfloor> \<le> lon \<and> lon \<le> \<lfloor>xmax b\<rfloor> \<and> k = tile_name lat lon)"
proof -
  have fx: "\<lfloor>xmin b\<rfloor> \<le> \<lfloor>xmax b\<rfloor>" using assms(1) by (rule floor_mono)
  have fy: "\<lfloor>ymin b\<rfloor> \<le> \<lfloor>ymax b\<rfloor>" using assms(2) by (rule floor_mono)
  have len: "int (length (tiles_for_bbox b)) =
           (\<lfloor>xmax b\<rfloor> - \<lfloor>xmin b\<rfloor> + 1) * (\<lfloor>ymax b\<rfloor> - \<lfloor>ymin b\<rfloor> + 1)"
    using fx fy by (simp add: tiles_for_bbox_grid length_grid)
  have dis: "distinct (tiles_for_bbox b)"
    by (simp add: tiles_for_bbox_grid distinct_grid)
  have mem: "\<forall>k \<in> set (tiles_for_bbox b). \<exists>lat lon.
             \<lfloor>ymin b\<rfloor> \<le> lat \<and> lat \<le> \<lfloor>ymax b\<rfloor> \<and>
             \<lfloor>xmin b\<rfloor> \<le> lon \<and> lon \<le> \<lfloor>xmax b\<rfloor> \<and> k = tile_name lat lon"
    unfolding tiles_for_bbox_grid by fastforce
  from tiles_for_bbox_grid len dis mem show ?thesis by blast
qed

theorem tiles_for_bbox_spec_witness:
  "tiles_for_bbox \<lparr>xmin = -103.0, ymin = 42.8, xmax = -101.5, ymax = 43.2\<rparr>
     = [''n42w103'', ''n42w102'', ''n43w103'', ''n43w102'']
   \<and> length (tiles_for_bbox \<lparr>xmin = -103.0, ymin = 42.8, xmax = -101.5, ymax = 43.2\<rparr>) = 4
   \<and> distinct (tiles_for_bbox \<lparr>xmin = -103.0, ymin = 42.8, xmax = -101.5, ymax = 43.2\<rparr>)"
  using tiles_for_bbox_spec [of "\<lparr>xmin = -103.0, ymin = 42.8, xmax = -101.5, ymax = 43.2\<rparr>"]
  by (simp add: upto.simps tile_name_def zero_pad_def digits.simps digit_char_def)

section \<open>The tile cache\<close>

lemma makedirs_idem: "d \<in> dirs w \<Longrightarrow> makedirs d w = w"
  by (simp add: makedirs_def insert_absorb)

lemma download_file_success:
  assumes "download_file E url p w = ((True, m), w')"
  shows "files w' p \<noteq> None \<and> dirs w' = insert (dirname p) (dirs w) \<and> requests w' = requests w @ [url]"
  using assms
  by (auto simp: download_file_def fs_defs split: response.splits body.splits if_splits)

lemma download_file_requests:
  "requests (snd (download_file E url p w)) = requests w @ [url]"
  by (auto simp: download_file_def fs_defs split: response.splits body.splits if_splits)

text \<open>
  Claim C7.  A call of \<open>download_tile\<close> that finds the file at \<open>cache_dir/<key>.tif\<close>
  returns that path without a request.  Hence, when a first call has returned a path,
  it made at most one request, and a second call with the same key and directory
  (whatever the server would answer now) returns the identical path and leaves the world,
  the trace of requests included, as it found it.
\<close>

theorem download_tile_cached:
  "(path_exists w (path_join cache_dir (tile_key @ ''.tif'')) \<longrightarrow>
      download_tile E tile_key cache_dir w
        = (Inr (path_join cache_dir (tile_key @ ''.tif'')), makedirs cache_dir w)
      \<and> requests (makedirs cache_dir w) = requests w)
   \<and> (download_tile E tile_key cache_dir w = (Inr p, w1) \<longrightarrow>
        p = path_join cache_dir (tile_key @ ''.tif'')
      \<and> length (requests w1) \<le> length (requests w) + 1
      \<and> download_tile E' tile_key cache_dir w1 = (Inr p, w1))"
proof (intro conjI impI)
  assume ex: "path_exists w (path_join cache_dir (tile_key @ ''.tif''))"
  then have "path_exists (makedirs cache_dir w) (path_join cache_dir (tile_key @ ''.tif''))"
    by (auto simp: path_exists_def makedirs_def)
  then show "download_tile E tile_key cache_dir w
        = (Inr (path_join cache_dir (tile_key @ ''.tif'')), makedirs cache_dir w)"
    by (simp add: download_tile_def Let_def)
  show "requests (makedirs cache_dir w) = requests w" by (simp add: makedirs_def)
next
  let ?out = "path_join cache_dir (tile_key @ ''.tif'')"
  let ?w0 = "makedirs cache_dir w"
  assume ret: "download_tile E tile_key cache_dir w = (Inr p, w1)"
  have facts: "p = ?out \<and> path_exists w1 ?out \<and> cache_dir \<in> dirs w1
      \<and> length (requests w1) \<le> length (requests w) + 1"
  proof (cases "path_exists ?w0 ?out")
    case True
    with ret have "p = ?out" "w1 = ?w0" by (simp_all add: download_tile_def Let_def)
    with True show ?thesis by (simp add: makedirs_def)
  next
    case False
    obtain ok m w2 where df: "download_file E (tile_url tile_key) ?out ?w0 = ((ok, m), w2)"
      by (metis prod.exhaust)
    with ret False have ok: "ok" and p: "p = ?out" and w: "w1 = w2"
      by (auto simp: download_tile_def Let_def split: if_splits)
    from download_file_success [of E "tile_url tile_key" ?out ?w0 m w2] df ok
    have "files w2 ?out \<noteq> None" "dirs w2 = insert (dirname ?out) (dirs ?w0)"
      "requests w2 = requests ?w0 @ [tile_url tile_key]" by simp_all
    with p w show ?thesis by (simp add: path_exists_def makedirs_def)
  qed
  then show "p = ?out" and "length (requests w1) \<le> length (requests w) + 1" by simp_all
  from facts have "makedirs cache_dir w1 = w1" by (simp add: makedirs_idem)
  with facts show "download_tile E' tile_key cache_dir w1 = (Inr p, w1)"
    by (simp add: download_tile_def Let_def)
qed

theorem download_tile_cached_witness:
  "download_tile (test_env (file_server ''II*tile'') True []) ''n42w103'' ''cache'' world0
     = (Inr ''cache/n42w103.tif'', fetched_world)
   \<and> length (requests fetched_world) \<le> length (requests world0) + 1
   \<and> path_exists fetched_world (path_join ''cache'' (''n42w103'' @ ''.tif''))
   \<and> download_tile (test_env offline True []) ''n42w103'' ''cache'' fetched_world
     = (Inr ''cache/n42w103.tif'', fetched_world)
   \<and> requests (makedirs ''cache'' fetched_world) = requests fetched_world"
proof -
  have first: "download_tile (test_env (file_server ''II*tile'') True []) ''n42w103'' ''cache'' world0
     = (Inr ''cache/n42w103.tif'', fetched_world)"
    by (simp add: download_tile_def download_file_def fetched_world_def fs_defs path_defs stub_defs)
  have hit: "path_exists fetched_world (path_join ''cache'' (''n42w103'' @ ''.tif''))"
    by (simp add: fetched_world_def path_exists_def path_join_def)
  have "download_tile (test_env (file_server ''II*tile'') True []) ''n42w103'' ''cache'' world0
          = (Inr ''cache/n42w103.tif'', fetched_world) \<longrightarrow>
        ''cache/n42w103.tif'' = path_join ''cache'' (''n42w103'' @ ''.tif'')
      \<and> length (requests fetched_world) \<le> length (requests world0) + 1
      \<and> download_tile (test_env offline True []) ''n42w103'' ''cache'' fetched_world
          = (Inr ''cache/n42w103.tif'', fetched_world)"
    using download_tile_cached [where w = world0 and cache_dir = "''cache''" and tile_key = "''n42w103''"
      and E = "test_env (file_server ''II*tile'') True []" and p = "''cache/n42w103.tif''"
      and ?w1.0 = fetched_world and E' = "test_env offline True []"]
    by (rule conjunct2)
  with first have second: "length (requests fetched_world) \<le> length (requests world0) + 1
      \<and> download_tile (test_env offline True []) ''n42w103'' ''cache'' fetched_world
          = (Inr ''cache/n42w103.tif'', fetched_world)"
    by blast
  have "path_exists fetched_world (path_join ''cache'' (''n42w103'' @ ''.tif'')) \<longrightarrow>
      download_tile (test_env offline True []) ''n42w103'' ''cache'' fetched_world
        = (Inr (path_join ''cache'' (''n42w103'' @ ''.tif'')), makedirs ''cache'' fetched_world)
      \<and> requests (makedirs ''cache'' fetched_world) = requests fetched_world"
    using download_tile_cached [where w = fetched_world and cache_dir = "''cache''"
      and tile_key = "''n42w103''" and E = "test_env offline True []"
      and p = "''cache/n42w103.tif''" and ?w1.0 = fetched_world and E' = "test_env offline True []"]
    by (rule conjunct1)
  with hit have "requests (makedirs ''cache'' fetched_world) = requests fetched_world" by blast
  with first second hit show ?thesis by blast
qed

text \<open>
  Claim C4 (evaluation at the failing input).  The server answers 200 with a
  \<open>content-length\<close> and breaks off after two chunks.  \<open>download_file\<close> reports failure
  without raising, yet the chunks received are left at the target path;
  \<open>download_tile\<close> raises \<open>RuntimeError\<close> and leaves them too, and the next call, with
  the network unreachable, returns the path of the partial file as a cache hit.
\<close>

theorem download_tile_partial_file_left:
  "fst (download_file (test_env broken_server True []) (tile_url ''n42w103'') ''cache/n42w103.tif'' world0)
     = (False, Some (''An unexpected error occurred for '' @ tile_url ''n42w103''
                       @ '': Connection broken: IncompleteRead''))
   \<and> files (snd (download_file (test_env broken_server True []) (tile_url ''n42w103'')
                   ''cache/n42w103.tif'' world0)) ''cache/n42w103.tif'' = Some ''II*partial''
   \<and> fst (download_tile (test_env broken_server True []) ''n42w103'' ''cache'' world0)
     = Inl (RuntimeError (''Failed to download '' @ tile_url ''n42w103''
              @ '': An unexpected error occurred for '' @ tile_url ''n42w103''
              @ '': Connection broken: IncompleteRead''))
   \<and> files (snd (download_tile (test_env broken_server True []) ''n42w103'' ''cache'' world0))
        ''cache/n42w103.tif'' = Some ''II*partial''
   \<and> fst (download_tile (test_env offline True []) ''n42w103'' ''cache''
            (snd (download_tile (test_env broken_server True []) ''n42w103'' ''cache'' world0)))
     = Inr ''cache/n42w103.tif''"
  by (simp add: download_tile_def download_file_def str_opt_def fs_defs path_defs stub_defs)

section \<open>The compositor\<close>

text \<open>
  Claim C1 (evaluation at the failing input).  Two cached tiles, \<open>gdalbuildvrt\<close> writes
  the mosaic, \<open>gdalwarp\<close> exits with a non-zero status: \<open>merge_and_clip\<close> raises
  \<open>CalledProcessError\<close> before it reaches the removal, and the mosaic file is still
  there.
\<close>

theorem merge_and_clip_clip_failure_leaves_vrt:
  "fst (merge_and_clip (test_env offline False []) [''cache/n42w103.tif'', ''cache/n43w103.tif'']
          ne_sd_bbox ''out'' tile_world)
     = Inl (CalledProcessError [''gdalwarp'', ''-te'', ''-103.0'', ''42.8'', ''-102.5'', ''43.2'',
              ''-te_srs'', ''EPSG:4326'', ''-dstalpha'', ''out/_tmp_mosaic.vrt'',
              ''out/DEM_-103.0_42.8_-102.5_43.2.tif''])
   \<and> files (snd (merge_and_clip (test_env offline False [])
                   [''cache/n42w103.tif'', ''cache/n43w103.tif''] ne_sd_bbox ''out'' tile_world))
        ''out/_tmp_mosaic.vrt'' = Some ''<VRTDataset/>''"
  by (simp add: merge_and_clip_def run_def ne_sd_bbox_def tile_world_def fs_defs path_defs stub_defs)

lemma run_calls: "calls (snd (run E argv w)) = calls w @ [argv]"
  by (simp add: run_def Let_def split: prod.splits)

lemma os_remove_calls: "os_remove p w = Inr w' \<Longrightarrow> calls w' = calls w"
  by (auto simp: os_remove_def unlink_def split: option.splits)

lemma merge_and_clip_first_call:
  "\<exists>rest. calls (snd (merge_and_clip E tile_paths b out_dir w))
     = calls w @ (''gdalbuildvrt'' # path_join out_dir ''_tmp_mosaic.vrt'' # tile_paths) # rest"
proof -
  let ?w1 = "makedirs out_dir w"
  let ?argv = "''gdalbuildvrt'' # path_join out_dir ''_tmp_mosaic.vrt'' # tile_paths"
  obtain r w2 where r1: "run E ?argv ?w1 = (r, w2)" by (metis prod.exhaust)
  have c2: "calls w2 = calls w @ [?argv]"
    using run_calls [of E ?argv ?w1] r1 by (simp add: makedirs_def)
  show ?thesis
  proof (cases r)
    case (Inl e)
    with r1 c2 show ?thesis by (simp add: merge_and_clip_def Let_def)
  next
    case (Inr u)
    let ?argv2 = "[''gdalwarp'', ''-te'', str_float E (xmin b), str_float E (ymin b),
                           str_float E (xmax b), str_float E (ymax b),
                           ''-te_srs'', ''EPSG:4326'', ''-dstalpha'', path_join out_dir ''_tmp_mosaic.vrt'',
                           path_join out_dir
            (''DEM_'' @ str_float E (xmin b) @ ''_'' @ str_float E (ymin b) @ ''_''
               @ str_float E (xmax b) @ ''_'' @ str_float E (ymax b) @ ''.tif'')]"
    obtain r' w3 where r2: "run E ?argv2 w2 = (r', w3)" by (metis prod.exhaust)
    have c3: "calls w3 = calls w @ [?argv, ?argv2]"
      using run_calls [of E ?argv2 w2] r2 c2 by simp
    show ?thesis
    proof (cases r')
      case (Inl e)
      with r1 Inr r2 c3 show ?thesis by (simp add: merge_and_clip_def Let_def)
    next
      case inr2: (Inr u')
      show ?thesis
        using r1 Inr r2 inr2 c3
        by (auto simp: merge_and_clip_def Let_def split: sum.splits dest: os_remove_calls)
    qed
  qed
qed

lemma tiles_empty_iff:
  "(tiles_for_bbox b = []) = (\<lfloor>ymax b\<rfloor> < \<lfloor>ymin b\<rfloor> \<or> \<lfloor>xmax b\<rfloor> < \<lfloor>xmin b\<rfloor>)"
proof -
  have "(tiles_for_bbox b = []) = ([\<lfloor>ymin b\<rfloor>..\<lfloor>ymax b\<rfloor>] = [] \<or> [\<lfloor>xmin b\<rfloor>..\<lfloor>xmax b\<rfloor>] = [])"
    by (auto simp: tiles_for_bbox_grid)
  then show ?thesis by simp
qed

text \<open>
  Claim C5, as the code has it.  The guard against an empty tile list is in
  \<open>fetch_and_clip_dem\<close>: when \<open>tiles_for_bbox\<close> yields no tile (exactly when
  \<open>floor ymax < floor ymin\<close> or \<open>floor xmax < floor xmin\<close>) it prints a warning and
  returns \<open>None\<close>, and nothing else of the world changes: no directory, no file, no
  request, no subprocess.  \<open>merge_and_clip\<close> has no such guard: called with an empty
  list it runs \<open>gdalbuildvrt\<close> with the mosaic path and no input.
\<close>

theorem empty_tiles_guard:
  "(tiles_for_bbox b = [] \<longrightarrow>
      fetch_and_clip_dem E b cache_dir out_dir w
        = (Inr None, w\<lparr>diagnostics := diagnostics w @
                          [''[WARN] No tiles found for the given bounding box.'']\<rparr>))
   \<and> (tiles_for_bbox b = []) = (\<lfloor>ymax b\<rfloor> < \<lfloor>ymin b\<rfloor> \<or> \<lfloor>xmax b\<rfloor> < \<lfloor>xmin b\<rfloor>)
   \<and> (\<exists>rest. calls (snd (merge_and_clip E [] b out_dir w))
         = calls w @ [''gdalbuildvrt'', path_join out_dir ''_tmp_mosaic.vrt''] # rest)"
proof (intro conjI impI)
  assume "tiles_for_bbox b = []"
  then show "fetch_and_clip_dem E b cache_dir out_dir w
        = (Inr None, w\<lparr>diagnostics := diagnostics w @
                          [''[WARN] No tiles found for the given bounding box.'']\<rparr>)"
    by (simp add: fetch_and_clip_dem_def report_def)
next
  show "(tiles_for_bbox b = []) = (\<lfloor>ymax b\<rfloor> < \<lfloor>ymin b\<rfloor> \<or> \<lfloor>xmax b\<rfloor> < \<lfloor>xmin b\<rfloor>)"
    by (rule tiles_empty_iff)
next
  show "\<exists>rest. calls (snd (merge_and_clip E [] b out_dir w))
         = calls w @ [''gdalbuildvrt'', path_join out_dir ''_tmp_mosaic.vrt''] # rest"
    by (rule merge_and_clip_first_call)
qed

theorem empty_tiles_guard_witness:
  "tiles_for_bbox inverted_bbox = []
   \<and> fetch_and_clip_dem (test_env offline True []) inverted_bbox ''cache'' ''out'' world0
       = (Inr None, world0\<lparr>diagnostics := [''[WARN] No tiles found for the given bounding box.'']\<rparr>)
   \<and> calls (snd (merge_and_clip (test_env offline True []) [] inverted_bbox ''out'' world0))
       = [[''gdalbuildvrt'', ''out/_tmp_mosaic.vrt'']]"
proof -
  have t: "tiles_for_bbox inverted_bbox = []"
    by (simp add: tiles_for_bbox_def inverted_bbox_def)
  have d: "diagnostics world0 = []" by (simp add: world0_def)
  have c: "calls (snd (merge_and_clip (test_env offline True []) [] inverted_bbox ''out'' world0))
       = [[''gdalbuildvrt'', ''out/_tmp_mosaic.vrt'']]"
    by (simp add: merge_and_clip_def run_def inverted_bbox_def fs_defs path_defs stub_defs)
  from empty_tiles_guard [of inverted_bbox "test_env offline True []" "''cache''" "''out''" world0] t d c
  show ?thesis by simp
qed

text \<open>
  Claim C5 as stated fails: \<open>merge_and_clip\<close> on an empty list and an empty file system
  creates the output directory and runs \<open>gdalbuildvrt\<close>; the error it ends with is the
  \<open>CalledProcessError\<close> of that program.
\<close>

theorem merge_and_clip_empty_is_attempted:
  "fst (merge_and_clip (test_env offline True []) [] ne_sd_bbox ''out'' world0)
     = Inl (CalledProcessError [''gdalbuildvrt'', ''out/_tmp_mosaic.vrt''])
   \<and> calls (snd (merge_and_clip (test_env offline True []) [] ne_sd_bbox ''out'' world0))
     = [[''gdalbuildvrt'', ''out/_tmp_mosaic.vrt'']]
   \<and> dirs world0 = {}
   \<and> dirs (snd (merge_and_clip (test_env offline True []) [] ne_sd_bbox ''out'' world0)) = {''out''}"
  by (simp add: merge_and_clip_def run_def ne_sd_bbox_def fs_defs path_defs stub_defs)

section \<open>Archive extraction\<close>

text \<open>
  Claim C2 (evaluation at the failing input).  A well-formed archive whose only member
  is \<open>readme.txt\<close>: \<open>extract_zip_and_rename\<close> returns from inside the \<open>with\<close> block
  with the message that no \<open>.gpkg\<close> file was found, and the archive is still on disk.
\<close>

theorem extract_member_not_found_leaves_zip:
  "fst (extract_zip_and_rename (test_env offline True []) ''raw/VECTOR_Qux_SD_7_5_Min_GPKG.zip''
          ''extracted'' ''.gpkg'' (zip_world ''PK-txt''))
     = (False, ''No '' @ [CHR 0x27] @ ''.gpkg'' @ [CHR 0x27]
                 @ '' file found in raw/VECTOR_Qux_SD_7_5_Min_GPKG.zip'')
   \<and> files (snd (extract_zip_and_rename (test_env offline True [])
                   ''raw/VECTOR_Qux_SD_7_5_Min_GPKG.zip'' ''extracted'' ''.gpkg''
                   (zip_world ''PK-txt'')))
        ''raw/VECTOR_Qux_SD_7_5_Min_GPKG.zip'' = Some ''PK-txt''"
  by (simp add: extract_zip_and_rename_def zip_world_def fs_defs path_defs stub_defs)

section \<open>Quadrangle keys\<close>

lemma rstrip_split: "xs = rev (dropWhile P (rev xs)) @ rev (takeWhile P (rev xs))"
  by (metis rev_append rev_rev_ident takeWhile_dropWhile_id)

lemma strip_infix: "\<exists>pre post. t = pre @ strip t @ post"
proof -
  let ?d = "dropWhile isspace t"
  have "t = takeWhile isspace t @ ?d" by simp
  also have "?d = strip t @ rev (takeWhile isspace (rev ?d))"
    unfolding strip_def by (rule rstrip_split)
  finally show ?thesis by blast
qed

lemma set_strip: "set (strip t) \<subseteq> set t"
proof -
  have "set (strip t) = set (dropWhile isspace (rev (dropWhile isspace t)))"
    by (simp add: strip_def)
  also have "\<dots> \<subseteq> set (rev (dropWhile isspace t))" by (rule set_dropWhileD [THEN subsetI])
  also have "\<dots> \<subseteq> set t" using set_dropWhileD by fastforce
  finally show ?thesis .
qed

lemma no_comma_token: "CHR '','' \<notin> set (strip (first_comma_token s))"
proof -
  have "CHR '','' \<notin> set (first_comma_token s)"
    by (auto simp: first_comma_token_def dest: set_takeWhileD)
  with set_strip [of "first_comma_token s"] show ?thesis by blast
qed

lemma no_space_name: "CHR '' '' \<notin> set (replace_spaces t)"
  by (auto simp: replace_spaces_def)

text \<open>
  Claim C3, as the code has it.  For a record with a cell name and a non-empty state
  field, \<open>_get_quad_info\<close> returns the cell name stripped, each space replaced by an
  underscore, and the first comma-separated token of the state field stripped, in the
  letter case of the source: the token is a contiguous part of the field.  The name has
  no space and the token no comma.  The dedup key joins the two with an underscore, so
  that for one name equal keys mean equal tokens, letter case included.
\<close>

theorem get_quad_info_key:
  assumes "s \<noteq> []"
  shows "get_quad_info (Some c) (Some s) w
           = (Inr (Some (replace_spaces (strip c), strip (first_comma_token s))), w)
       \<and> CHR '' '' \<notin> set (replace_spaces (strip c))
       \<and> CHR '','' \<notin> set (strip (first_comma_token s))
       \<and> (\<exists>pre post. s = pre @ strip (first_comma_token s) @ post)
       \<and> (quad_key (replace_spaces (strip c)) (strip (first_comma_token s))
            = quad_key (replace_spaces (strip c)) (strip (first_comma_token s')) \<longrightarrow>
          strip (first_comma_token s) = strip (first_comma_token s'))"
proof -
  have g: "get_quad_info (Some c) (Some s) w
           = (Inr (Some (replace_spaces (strip c), strip (first_comma_token s))), w)"
    using assms by (simp add: get_quad_info_def Let_def)
  obtain pre post where "first_comma_token s = pre @ strip (first_comma_token s) @ post"
    using strip_infix by blast
  moreover have "s = first_comma_token s @ dropWhile (\<lambda>c. c \<noteq> CHR '','') s"
    by (simp add: first_comma_token_def)
  ultimately have "s = pre @ strip (first_comma_token s) @ (post @ dropWhile (\<lambda>c. c \<noteq> CHR '','') s)"
    by (metis append.assoc)
  then have i: "\<exists>pre post. s = pre @ strip (first_comma_token s) @ post" by blast
  have k: "quad_key (replace_spaces (strip c)) (strip (first_comma_token s))
            = quad_key (replace_spaces (strip c)) (strip (first_comma_token s')) \<longrightarrow>
          strip (first_comma_token s) = strip (first_comma_token s')"
    by (simp add: quad_key_def)
  from g no_space_name no_comma_token i k show ?thesis by blast
qed

theorem get_quad_info_key_witness:
  "''NE,SD'' \<noteq> []
   \<and> get_quad_info (Some ''Foo Bar'') (Some ''NE,SD'') world0 = (Inr (Some (''Foo_Bar'', ''NE'')), world0)
   \<and> CHR '' '' \<notin> set ''Foo_Bar'' \<and> CHR '','' \<notin> set ''NE''
   \<and> quad_key ''Foo_Bar'' ''NE'' \<noteq> quad_key ''Foo_Bar'' ''ne''"
proof -
  have n: "''NE,SD'' \<noteq> []" by simp
  have v: "replace_spaces (strip ''Foo Bar'') = ''Foo_Bar''" "strip (first_comma_token ''NE,SD'') = ''NE''"
    "strip (first_comma_token ''ne'') = ''ne''"
    by (simp_all add: replace_spaces_def strip_def first_comma_token_def isspace_def)
  from get_quad_info_key [OF n, of "''Foo Bar''" world0 "''ne''"] v
  show ?thesis by auto
qed

text \<open>
  Claim C3 as stated fails: the state fields \<open>NE,SD\<close> and \<open>ne\<close> give the tokens \<open>NE\<close>
  and \<open>ne\<close>, the keys differ, and a run over the two records counts two unique
  quadrangles and processes both.  Of the whitespace inside a name only spaces are
  replaced: a tab stays.
\<close>

theorem state_case_not_normalized:
  "fst (get_quad_info (Some ''Foo Bar'') (Some ''NE,SD'') world0) = Inr (Some (''Foo_Bar'', ''NE''))
   \<and> fst (get_quad_info (Some ''Foo_Bar'') (Some ''ne'') world0) = Inr (Some (''Foo_Bar'', ''ne''))
   \<and> quad_key ''Foo_Bar'' ''NE'' \<noteq> quad_key ''Foo_Bar'' ''ne''
   \<and> fst (get_quad_info (Some (''Foo'' @ [CHR 0x09] @ ''Bar'')) (Some ''NE'') world0)
       = Inr (Some (''Foo'' @ [CHR 0x09] @ ''Bar'', ''NE''))
   \<and> fst (download_by_bbox (test_env offline True case_layer) quad_downloader gdb_world) = SUCCESS 2 2 0
   \<and> attempts (snd (download_by_bbox (test_env offline True case_layer) quad_downloader gdb_world))
      = [(''Foo_Bar'', ''NE''), (''Foo_Bar'', ''ne'')]"
  by (simp add: quad_defs case_layer_def quad_downloader_def gdb_world_def ne_sd_bbox_def
        fs_defs path_defs stub_defs)

section \<open>The quadrangle run\<close>

lemma download_file_attempts:
  "attempts (snd (download_file E url p w)) = attempts w"
  by (simp add: download_file_def fs_defs split: response.splits body.splits)

lemma extract_attempts:
  "attempts (snd (extract_zip_and_rename E z d x w)) = attempts w"
  by (simp add: extract_zip_and_rename_def fs_defs split: option.splits sum.splits)

lemma process_quad_attempts:
  "attempts (snd (process_quad E self q a w)) = attempts w @ [(q, a)]"
proof -
  let ?w0 = "w\<lparr>attempts := attempts w @ [(q, a)]\<rparr>"
  have df: "\<And>u p. attempts (snd (download_file E u p ?w0)) = attempts w @ [(q, a)]"
    by (simp add: download_file_attempts)
  have ex: "\<And>z d x w'. attempts w' = attempts w @ [(q, a)] \<Longrightarrow>
      attempts (snd (extract_zip_and_rename E z d x w')) = attempts w @ [(q, a)]"
    by (simp add: extract_attempts)
  show ?thesis
    unfolding process_quad_def Let_def
    using df ex
    by (auto simp: report_def os_remove_def unlink_def split: prod.splits sum.splits option.splits if_splits
          dest!: arg_cong [where f = snd])
qed

lemma get_quad_info_attempts:
  "attempts (snd (get_quad_info c s w)) = attempts w"
  by (simp add: get_quad_info_def report_def Let_def split: option.splits)

lemma quad_loop_new:
  assumes "get_quad_info (CELL_NAME f) (STATE_ALPHA f) w = (Inr (Some (q, a)), w1)"
    and "quad_key q a \<notin> processed_quads st"
    and "process_quad E self q a w1 = (Inr ok, w2)"
  shows "quad_loop E self (f # rest) st w
           = quad_loop E self rest
               (st\<lparr>features_found := features_found st + 1,
                   processed_quads := insert (quad_key q a) (processed_quads st),
                   downloads_successful := downloads_successful st + (if ok then 1 else 0)\<rparr>) w2"
  using assms by (cases ok) (simp_all add: Let_def)

lemma quad_loop_attempts:
  "\<exists>new. attempts (snd (quad_loop E self layer st w)) = attempts w @ new
        \<and> distinct (keys_of new) \<and> set (keys_of new) \<inter> processed_quads st = {}"
proof (induction layer arbitrary: st w)
  case Nil
  show ?case by (simp add: keys_of_def)
next
  case (Cons f rest)
  let ?st1 = "st\<lparr>features_found := features_found st + 1\<rparr>"
  obtain r w1 where g: "get_quad_info (CELL_NAME f) (STATE_ALPHA f) w = (r, w1)"
    by (metis prod.exhaust)
  have a1: "attempts w1 = attempts w"
    using get_quad_info_attempts [of "CELL_NAME f" "STATE_ALPHA f" w] g by simp
  show ?case
  proof (cases r)
    case (Inl e)
    with g a1 show ?thesis by (simp add: keys_of_def)
  next
    case (Inr info)
    show ?thesis
    proof (cases info)
      case None
      from Cons.IH [of ?st1 w1] obtain new where
        "attempts (snd (quad_loop E self rest ?st1 w1)) = attempts w1 @ new"
        "distinct (keys_of new)" "set (keys_of new) \<inter> processed_quads ?st1 = {}" by blast
      with g Inr None a1 show ?thesis by auto
    next
      case (Some qa)
      obtain q a where qa: "qa = (q, a)" by (cases qa)
      show ?thesis
      proof (cases "quad_key q a \<in> processed_quads st")
        case True
        from Cons.IH [of ?st1 w1] obtain new where
          "attempts (snd (quad_loop E self rest ?st1 w1)) = attempts w1 @ new"
          "distinct (keys_of new)" "set (keys_of new) \<inter> processed_quads ?st1 = {}" by blast
        with g Inr Some qa a1 True show ?thesis by auto
      next
        case False
        let ?st2 = "?st1\<lparr>processed_quads := insert (quad_key q a) (processed_quads ?st1)\<rparr>"
        obtain r2 w2 where pq: "process_quad E self q a w1 = (r2, w2)" by (metis prod.exhaust)
        have a2: "attempts w2 = attempts w @ [(q, a)]"
          using process_quad_attempts [of E self q a w1] pq a1 by simp
        show ?thesis
        proof (cases r2)
          case (Inl e)
          with g Inr Some qa pq a2 False show ?thesis
            by (auto simp: keys_of_def intro!: exI [of _ "[(q, a)]"])
        next
          case ok: (Inr ok)
          let ?st3 = "st\<lparr>features_found := features_found st + 1,
                   processed_quads := insert (quad_key q a) (processed_quads st),
                   downloads_successful := downloads_successful st + (if ok then 1 else 0)\<rparr>"
          from Cons.IH [of ?st3 w2] obtain new where n:
            "attempts (snd (quad_loop E self rest ?st3 w2)) = attempts w2 @ new"
            "distinct (keys_of new)" "set (keys_of new) \<inter> processed_quads ?st3 = {}" by blast
          have p3: "processed_quads ?st3 = insert (quad_key q a) (processed_quads st)" by simp
          from n(3) p3 have notin: "quad_key q a \<notin> set (keys_of new)"
            and disj: "set (keys_of new) \<inter> processed_quads st = {}" by auto
          have "attempts (snd (quad_loop E self (f # rest) st w)) = attempts w @ (q, a) # new"
            using quad_loop_new [of f w q a w1 st E self ok w2 rest] g Inr Some qa pq ok False n(1) a2
            by simp
          moreover have "distinct (keys_of ((q, a) # new))"
            using n(2) notin by (simp add: keys_of_def)
          moreover have "set (keys_of ((q, a) # new)) \<inter> processed_quads st = {}"
            using disj False by (simp add: keys_of_def)
          ultimately show ?thesis by blast
        qed
      qed
    qed
  qed
qed

lemma quad_loop_seen:
  assumes "get_quad_info (CELL_NAME f) (STATE_ALPHA f) w = (Inr (Some (q, a)), w1)"
    and "quad_key q a \<in> processed_quads st"
  shows "quad_loop E self (f # rest) st w
           = quad_loop E self rest (st\<lparr>features_found := features_found st + 1\<rparr>) w1"
  using assms by simp

text \<open>
  Claim C8.  The quadrangles that one run of \<open>download_by_bbox\<close> enters
  \<open>_process_quad\<close> with have pairwise different dedup keys: no key is processed twice,
  however many records normalize to it.  A record whose key is already in
  \<open>processed_quads\<close> is only counted and the loop goes on with the next record.
\<close>

theorem download_by_bbox_each_key_once:
  "(\<exists>new. attempts (snd (download_by_bbox E self w)) = attempts w @ new
          \<and> distinct (map (\<lambda>(q, a). quad_key q a) new))
   \<and> (get_quad_info (CELL_NAME f) (STATE_ALPHA f) w = (Inr (Some (q, a)), w1)
        \<and> quad_key q a \<in> processed_quads st \<longrightarrow>
      quad_loop E self (f # rest) st w
        = quad_loop E self rest (st\<lparr>features_found := features_found st + 1\<rparr>) w1 \<and> w1 = w)"
proof (intro conjI impI)
  show "\<exists>new. attempts (snd (download_by_bbox E self w)) = attempts w @ new
          \<and> distinct (map (\<lambda>(q, a). quad_key q a) new)"
  proof (cases "path_exists w (gdb_path self)")
    case False
    then show ?thesis by (simp add: download_by_bbox_def)
  next
    case True
    show ?thesis
    proof (cases "open_layer E (gdb_path self) (layer_name self) (bbox self)")
      case (Features layer)
      let ?st0 = "\<lparr>processed_quads = {}, features_found = 0, downloads_successful = 0\<rparr>"
      from quad_loop_attempts [of E self layer ?st0 w] obtain new where
        n: "attempts (snd (quad_loop E self layer ?st0 w)) = attempts w @ new" "distinct (keys_of new)"
        by blast
      have "attempts (snd (download_by_bbox E self w)) = attempts (snd (quad_loop E self layer ?st0 w))"
        using True Features by (simp add: download_by_bbox_def split: prod.splits sum.splits)
      with n show ?thesis by (auto simp: keys_of_def)
    qed (use True in \<open>simp_all add: download_by_bbox_def\<close>)
  qed
next
  assume h: "get_quad_info (CELL_NAME f) (STATE_ALPHA f) w = (Inr (Some (q, a)), w1)
        \<and> quad_key q a \<in> processed_quads st"
  then show "quad_loop E self (f # rest) st w
        = quad_loop E self rest (st\<lparr>features_found := features_found st + 1\<rparr>) w1"
    by simp
  from h show "w1 = w"
    by (auto simp: get_quad_info_def Let_def split: if_splits option.splits)
qed

lemma quad_loop_append:
  "quad_loop E self (xs @ ys) st w =
     (case quad_loop E self xs st w of
        (Inl e, w') \<Rightarrow> (Inl e, w')
      | (Inr st', w') \<Rightarrow> quad_loop E self ys st' w')"
  by (induction xs arbitrary: st w)
     (simp_all add: Let_def split: prod.splits sum.splits option.splits)

lemma quad_loop_empty_state:
  assumes "STATE_ALPHA f = None \<or> STATE_ALPHA f = Some []"
  shows "quad_loop E self (f # rest) st w
           = quad_loop E self rest (st\<lparr>features_found := features_found st + 1\<rparr>)
               (report (empty_state_line (CELL_NAME f)) w)"
  using assms by (auto simp: get_quad_info_def empty_state_line_def)

text \<open>
  Claim C9.  Wherever in the layer a record with a null or empty state field stands
  (after any records \<open>pre\<close> that the loop got through), the loop prints the error line,
  counts the record in \<open>features_found\<close>, leaves \<open>processed_quads\<close> and
  \<open>downloads_successful\<close> as they are, and goes on with the records \<open>post\<close>.
\<close>

theorem quad_loop_skips_empty_state:
  assumes "STATE_ALPHA f = None \<or> STATE_ALPHA f = Some []"
    and "quad_loop E self pre st w = (Inr st1, w1)"
  shows "quad_loop E self (pre @ f # post) st w
           = quad_loop E self post
               \<lparr>processed_quads = processed_quads st1,
                features_found = features_found st1 + 1,
                downloads_successful = downloads_successful st1\<rparr>
               (w1\<lparr>diagnostics := diagnostics w1 @
                    [''  [ERROR] STATE_ALPHA field is empty for: '' @ str_opt (CELL_NAME f)
                       @ ''. Skipping.'']\<rparr>)"
proof -
  have "quad_loop E self (pre @ f # post) st w = quad_loop E self (f # post) st1 w1"
    using assms(2) by (simp add: quad_loop_append)
  also have "\<dots> = quad_loop E self post (st1\<lparr>features_found := features_found st1 + 1\<rparr>)
               (report (empty_state_line (CELL_NAME f)) w1)"
    using assms(1) by (rule quad_loop_empty_state)
  also have "st1\<lparr>features_found := features_found st1 + 1\<rparr>
      = \<lparr>processed_quads = processed_quads st1, features_found = features_found st1 + 1,
         downloads_successful = downloads_successful st1\<rparr>"
    by simp
  finally show ?thesis by (simp add: report_def empty_state_line_def)
qed

lemma quad_loop_counters:
  assumes "quad_loop E self layer st w = (Inr st', w')"
    and "finite (processed_quads st)"
    and "downloads_successful st \<le> card (processed_quads st)"
    and "card (processed_quads st) \<le> features_found st"
  shows "finite (processed_quads st') \<and> downloads_successful st' \<le> card (processed_quads st')
       \<and> card (processed_quads st') \<le> features_found st'"
  using assms
proof (induction layer arbitrary: st w)
  case Nil
  then show ?case by simp
next
  case (Cons f rest)
  let ?st1 = "st\<lparr>features_found := features_found st + 1\<rparr>"
  obtain r w1 where g: "get_quad_info (CELL_NAME f) (STATE_ALPHA f) w = (r, w1)"
    by (metis prod.exhaust)
  show ?case
  proof (cases r)
    case (Inl e)
    with g Cons.prems(1) show ?thesis by simp
  next
    case (Inr info)
    show ?thesis
    proof (cases info)
      case None
      with g Inr Cons.prems(1) have "quad_loop E self rest ?st1 w1 = (Inr st', w')" by simp
      from Cons.IH [OF this] Cons.prems(2-4) show ?thesis by simp
    next
      case (Some qa)
      obtain q a where qa: "qa = (q, a)" by (cases qa)
      show ?thesis
      proof (cases "quad_key q a \<in> processed_quads st")
        case True
        with g Inr Some qa Cons.prems(1) have "quad_loop E self rest ?st1 w1 = (Inr st', w')" by simp
        from Cons.IH [OF this] Cons.prems(2-4) show ?thesis by simp
      next
        case False
        obtain r2 w2 where pq: "process_quad E self q a w1 = (r2, w2)" by (metis prod.exhaust)
        show ?thesis
        proof (cases r2)
          case (Inl e)
          with g Inr Some qa pq False Cons.prems(1) show ?thesis by simp
        next
          case ok: (Inr ok)
          let ?st3 = "st\<lparr>features_found := features_found st + 1,
                   processed_quads := insert (quad_key q a) (processed_quads st),
                   downloads_successful := downloads_successful st + (if ok then 1 else 0)\<rparr>"
          have "quad_loop E self rest ?st3 w2 = (Inr st', w')"
            using quad_loop_new [of f w q a w1 st E self ok w2 rest] g Inr Some qa pq ok False
              Cons.prems(1) by simp
          from Cons.IH [OF this] Cons.prems(2-4) False show ?thesis by simp
        qed
      qed
    qed
  qed
qed

lemma process_quad_cached:
  assumes "path_exists w (path_join (extracted_dir self)
              (''VECTOR_'' @ q @ ''_'' @ a @ ''_7_5_Min_'' @ download_format self @ ''.gpkg''))"
  shows "process_quad E self q a w = (Inr True, w\<lparr>attempts := attempts w @ [(q, a)]\<rparr>)"
  using assms by (simp add: process_quad_def Let_def path_exists_def)

text \<open>
  Claim C10.  A run that returns the \<open>SUCCESS\<close> summary reports
  \<open>downloads_successful \<le> unique_quads_identified \<le> features_found\<close>.  A new
  quadrangle whose extracted file is already in the cache makes no request and is
  counted in \<open>downloads_successful\<close>.
\<close>

theorem download_by_bbox_counters:
  "(download_by_bbox E self w = (SUCCESS ff uq ds, w') \<longrightarrow> ds \<le> uq \<and> uq \<le> ff)
   \<and> (get_quad_info (CELL_NAME f) (STATE_ALPHA f) w0 = (Inr (Some (q, a)), w1)
        \<and> quad_key q a \<notin> processed_quads st
        \<and> path_exists w1 (path_join (extracted_dir self)
              (''VECTOR_'' @ q @ ''_'' @ a @ ''_7_5_Min_'' @ download_format self @ ''.gpkg'')) \<longrightarrow>
      process_quad E self q a w1 = (Inr True, w1\<lparr>attempts := attempts w1 @ [(q, a)]\<rparr>)
      \<and> requests (w1\<lparr>attempts := attempts w1 @ [(q, a)]\<rparr>) = requests w0
      \<and> quad_loop E self (f # rest) st w0
          = quad_loop E self rest
              (st\<lparr>features_found := features_found st + 1,
                  processed_quads := insert (quad_key q a) (processed_quads st),
                  downloads_successful := downloads_successful st + 1\<rparr>)
              (w1\<lparr>attempts := attempts w1 @ [(q, a)]\<rparr>))"
proof (intro conjI impI)
  assume s: "download_by_bbox E self w = (SUCCESS ff uq ds, w')"
  let ?st0 = "\<lparr>processed_quads = {}, features_found = 0, downloads_successful = 0\<rparr>"
  from s obtain layer st' where
    l: "quad_loop E self layer ?st0 w = (Inr st', w')"
    and c: "ff = features_found st'" "uq = card (processed_quads st')" "ds = downloads_successful st'"
    by (auto simp: download_by_bbox_def split: if_splits layer_result.splits prod.splits sum.splits)
  from quad_loop_counters [OF l] c show "ds \<le> uq" and "uq \<le> ff" by simp_all
next
  assume h: "get_quad_info (CELL_NAME f) (STATE_ALPHA f) w0 = (Inr (Some (q, a)), w1)
        \<and> quad_key q a \<notin> processed_quads st
        \<and> path_exists w1 (path_join (extracted_dir self)
              (''VECTOR_'' @ q @ ''_'' @ a @ ''_7_5_Min_'' @ download_format self @ ''.gpkg''))"
  then have pq: "process_quad E self q a w1 = (Inr True, w1\<lparr>attempts := attempts w1 @ [(q, a)]\<rparr>)"
    by (simp add: process_quad_cached)
  then show "process_quad E self q a w1 = (Inr True, w1\<lparr>attempts := attempts w1 @ [(q, a)]\<rparr>)" .
  from h have "w1 = w0"
    by (auto simp: get_quad_info_def Let_def split: if_splits option.splits)
  then show "requests (w1\<lparr>attempts := attempts w1 @ [(q, a)]\<rparr>) = requests w0" by simp
  from h pq
  show "quad_loop E self (f # rest) st w0
          = quad_loop E self rest
              (st\<lparr>features_found := features_found st + 1,
                  processed_quads := insert (quad_key q a) (processed_quads st),
                  downloads_successful := downloads_successful st + 1\<rparr>)
              (w1\<lparr>attempts := attempts w1 @ [(q, a)]\<rparr>)"
    by (simp add: Let_def)
qed

text \<open>The run of the scenario, evaluated.\<close>

lemma run_summary: "fst (download_by_bbox quad_env quad_downloader quad_world) = SUCCESS 4 2 2"
  by (simp add: quad_defs scen_defs fs_defs path_defs stub_defs)

lemma run_attempts: "attempts (snd (download_by_bbox quad_env quad_downloader quad_world))
    = [(''Foo_Bar'', ''NE''), (''Qux'', ''SD'')]"
  by (simp add: quad_defs scen_defs fs_defs path_defs stub_defs)

theorem download_by_bbox_each_key_once_witness:
  "attempts (snd (download_by_bbox quad_env quad_downloader quad_world))
     = attempts quad_world @ [(''Foo_Bar'', ''NE''), (''Qux'', ''SD'')]
   \<and> distinct (map (\<lambda>(q, a). quad_key q a) [(''Foo_Bar'', ''NE''), (''Qux'', ''SD'')])
   \<and> quad_key ''Foo_Bar'' ''NE'' \<in> processed_quads \<lparr>processed_quads = {''Foo_Bar_NE''}, features_found = 1, downloads_successful = 1\<rparr>
   \<and> quad_loop quad_env quad_downloader (drop 1 quad_layer)
        \<lparr>processed_quads = {''Foo_Bar_NE''}, features_found = 1, downloads_successful = 1\<rparr> quad_world
     = quad_loop quad_env quad_downloader (drop 2 quad_layer)
        \<lparr>processed_quads = {''Foo_Bar_NE''}, features_found = 2, downloads_successful = 1\<rparr> quad_world"
proof -
  have g: "get_quad_info (CELL_NAME (quad_layer ! 1)) (STATE_ALPHA (quad_layer ! 1)) quad_world
      = (Inr (Some (''Foo_Bar'', ''NE'')), quad_world)"
    by (simp add: quad_layer_def get_quad_info_def strip_def first_comma_token_def replace_spaces_def
          isspace_def Let_def)
  have k: "quad_key ''Foo_Bar'' ''NE'' \<in> processed_quads \<lparr>processed_quads = {''Foo_Bar_NE''}, features_found = 1, downloads_successful = 1\<rparr>"
    by (simp add: quad_key_def)
  have d: "drop 1 quad_layer = quad_layer ! 1 # drop 2 quad_layer"
    by (simp add: quad_layer_def)
  note th = download_by_bbox_each_key_once [where E = quad_env and self = quad_downloader
      and w = quad_world and f = "quad_layer ! 1" and q = "''Foo_Bar''" and a = "''NE''"
      and ?w1.0 = quad_world
      and st = "\<lparr>processed_quads = {''Foo_Bar_NE''}, features_found = 1, downloads_successful = 1\<rparr>"
      and rest = "drop 2 quad_layer"]
  from th g k d have skip: "quad_loop quad_env quad_downloader (drop 1 quad_layer)
        \<lparr>processed_quads = {''Foo_Bar_NE''}, features_found = 1, downloads_successful = 1\<rparr> quad_world
     = quad_loop quad_env quad_downloader (drop 2 quad_layer)
        \<lparr>processed_quads = {''Foo_Bar_NE''}, features_found = 2, downloads_successful = 1\<rparr> quad_world"
    by (simp add: numeral_2_eq_2)
  have a: "attempts quad_world = []" by (simp add: quad_world_def world0_def)
  have dist: "distinct (map (\<lambda>(q, a). quad_key q a) [(''Foo_Bar'', ''NE''), (''Qux'', ''SD'')])"
    by (simp add: quad_key_def)
  from run_attempts a dist k skip show ?thesis by simp
qed

lemma run_prefix: "quad_loop quad_env quad_downloader (take 2 quad_layer) loop_init quad_world
    = (Inr \<lparr>processed_quads = {''Foo_Bar_NE''}, features_found = 2, downloads_successful = 1\<rparr>,
       quad_world\<lparr>attempts := [(''Foo_Bar'', ''NE'')]\<rparr>)"
  by (simp add: quad_defs scen_defs fs_defs path_defs stub_defs)

theorem quad_loop_skips_empty_state_witness:
  "STATE_ALPHA (quad_layer ! 2) = Some []
   \<and> quad_loop quad_env quad_downloader (take 2 quad_layer) loop_init quad_world
     = (Inr \<lparr>processed_quads = {''Foo_Bar_NE''}, features_found = 2, downloads_successful = 1\<rparr>,
        quad_world\<lparr>attempts := [(''Foo_Bar'', ''NE'')]\<rparr>)
   \<and> quad_loop quad_env quad_downloader quad_layer loop_init quad_world
     = quad_loop quad_env quad_downloader (drop 3 quad_layer)
         \<lparr>processed_quads = {''Foo_Bar_NE''}, features_found = 3, downloads_successful = 1\<rparr>
         (quad_world\<lparr>attempts := [(''Foo_Bar'', ''NE'')],
            diagnostics := [''  [ERROR] STATE_ALPHA field is empty for: Baz. Skipping.'']\<rparr>)"
proof -
  have e: "STATE_ALPHA (quad_layer ! 2) = None \<or> STATE_ALPHA (quad_layer ! 2) = Some []"
    by (simp add: quad_layer_def)
  have l: "quad_layer = take 2 quad_layer @ quad_layer ! 2 # drop 3 quad_layer"
    by (simp add: quad_layer_def)
  have c: "str_opt (CELL_NAME (quad_layer ! 2)) = ''Baz''"
    by (simp add: quad_layer_def str_opt_def)
  have d: "diagnostics (quad_world\<lparr>attempts := [(''Foo_Bar'', ''NE'')]\<rparr>) = []"
    by (simp add: quad_world_def world0_def)
  from quad_loop_skips_empty_state [OF e run_prefix, of "drop 3 quad_layer"] l c d
  have "quad_loop quad_env quad_downloader quad_layer loop_init quad_world
     = quad_loop quad_env quad_downloader (drop 3 quad_layer)
         \<lparr>processed_quads = {''Foo_Bar_NE''}, features_found = 3, downloads_successful = 1\<rparr>
         (quad_world\<lparr>attempts := [(''Foo_Bar'', ''NE'')],
            diagnostics := [''  [ERROR] STATE_ALPHA field is empty for: Baz. Skipping.'']\<rparr>)"
    by simp
  with e run_prefix show ?thesis by (simp add: quad_layer_def)
qed

theorem download_by_bbox_counters_witness:
  "fst (download_by_bbox quad_env quad_downloader quad_world) = SUCCESS 4 2 2
   \<and> (2::nat) \<le> 2 \<and> (2::nat) \<le> 4
   \<and> process_quad quad_env quad_downloader ''Foo_Bar'' ''NE'' quad_world
       = (Inr True, quad_world\<lparr>attempts := [(''Foo_Bar'', ''NE'')]\<rparr>)
   \<and> requests (quad_world\<lparr>attempts := [(''Foo_Bar'', ''NE'')]\<rparr>) = requests quad_world
   \<and> quad_loop quad_env quad_downloader quad_layer loop_init quad_world
       = quad_loop quad_env quad_downloader (drop 1 quad_layer)
           \<lparr>processed_quads = {''Foo_Bar_NE''}, features_found = 1, downloads_successful = 1\<rparr>
           (quad_world\<lparr>attempts := [(''Foo_Bar'', ''NE'')]\<rparr>)"
proof -
  have s: "download_by_bbox quad_env quad_downloader quad_world
      = (SUCCESS 4 2 2, snd (download_by_bbox quad_env quad_downloader quad_world))"
    using run_summary by (metis prod.collapse)
  have g: "get_quad_info (CELL_NAME (quad_layer ! 0)) (STATE_ALPHA (quad_layer ! 0)) quad_world
      = (Inr (Some (''Foo_Bar'', ''NE'')), quad_world)"
    by (simp add: quad_layer_def get_quad_info_def strip_def first_comma_token_def replace_spaces_def
          isspace_def Let_def)
  have k: "quad_key ''Foo_Bar'' ''NE'' \<notin> processed_quads loop_init"
    by (simp add: loop_init_def)
  have c: "path_exists quad_world (path_join (extracted_dir quad_downloader)
              (''VECTOR_'' @ ''Foo_Bar'' @ ''_'' @ ''NE'' @ ''_7_5_Min_'' @ download_format quad_downloader @ ''.gpkg''))"
    by (simp add: quad_world_def quad_downloader_def path_exists_def path_join_def world0_def)
  have l: "quad_layer = quad_layer ! 0 # drop 1 quad_layer"
    by (simp add: quad_layer_def)
  have a: "attempts quad_world = []" by (simp add: quad_world_def world0_def)
  note th = download_by_bbox_counters [where E = quad_env and self = quad_downloader
      and w = quad_world and ff = 4 and uq = 2 and ds = 2
      and w' = "snd (download_by_bbox quad_env quad_downloader quad_world)"
      and f = "quad_layer ! 0" and ?w0.0 = quad_world and q = "''Foo_Bar''" and a = "''NE''"
      and ?w1.0 = quad_world and st = loop_init and rest = "drop 1 quad_layer"]
  from th s g k c a
  have step: "process_quad quad_env quad_downloader ''Foo_Bar'' ''NE'' quad_world
       = (Inr True, quad_world\<lparr>attempts := [(''Foo_Bar'', ''NE'')]\<rparr>)
   \<and> quad_loop quad_env quad_downloader (quad_layer ! 0 # drop 1 quad_layer) loop_init quad_world
       = quad_loop quad_env quad_downloader (drop 1 quad_layer)
           \<lparr>processed_quads = {''Foo_Bar_NE''}, features_found = 1, downloads_successful = 1\<rparr>
           (quad_world\<lparr>attempts := [(''Foo_Bar'', ''NE'')]\<rparr>)"
    by (simp add: loop_init_def quad_key_def)
  then have "quad_loop quad_env quad_downloader quad_layer loop_init quad_world
       = quad_loop quad_env quad_downloader (drop 1 quad_layer)
           \<lparr>processed_quads = {''Foo_Bar_NE''}, features_found = 1, downloads_successful = 1\<rparr>
           (quad_world\<lparr>attempts := [(''Foo_Bar'', ''NE'')]\<rparr>)"
    by (simp only: l [symmetric])
  with step run_summary show ?thesis by simp
qed

end
